theory Spec2Isabelle
  imports Main
begin

section \<open>The request handler: \<^verbatim>\<open>CORSRequestHandler\<close>\<close>

text \<open>
  \<^verbatim>\<open>src/server.py\<close> defines one class, \<^verbatim>\<open>CORSRequestHandler\<close>, a subclass of the
  standard library's \<^verbatim>\<open>http.server.SimpleHTTPRequestHandler\<close>, and overrides one method:
  \<^verbatim>\<open>
  def end_headers(self):
      self.send_header('Access-Control-Allow-Origin', '*')
      self.send_header('Access-Control-Allow-Methods', 'GET')
      self.send_header('Cache-Control', 'no-store, no-cache, must-revalidate')
      return super().end_headers()
  \<close>
  The methods it calls (\<^verbatim>\<open>send_header\<close>, the inherited \<^verbatim>\<open>end_headers\<close>,
  \<^verbatim>\<open>flush_headers\<close>) are those of \<^verbatim>\<open>BaseHTTPRequestHandler\<close> in CPython 3.11's
  \<^verbatim>\<open>Lib/http/server.py\<close>, imported on line 1 of the source; they are embedded here
  statement by statement.

  Python \<^verbatim>\<open>str\<close> values that reach the wire are encoded with \<^verbatim>\<open>latin-1\<close>, one byte per
  character, so a \<open>string\<close> (a list of 8-bit characters) stands for both the \<^verbatim>\<open>str\<close> and
  its encoding.
\<close>

text \<open>
  The exceptions that leave a method of the handler: the classes that the calls below raise
  by name, any other class under \<open>OtherError\<close> with its name.
\<close>

datatype py_error =
    AttributeError
  | ValueError
  | UnicodeEncodeError
  | OverflowError
  | OtherError string

text \<open>
  The fields of the handler object that the methods below read or write.
  \<open>headers\<close> is \<^verbatim>\<open>self.headers\<close>, the header fields of the request in the order received.
  \<open>headers_buffer\<close> is \<^verbatim>\<open>self._headers_buffer\<close>: \<open>None\<close> while the attribute does not
  exist (\<^verbatim>\<open>hasattr\<close> is false). \<open>wfile\<close> is every byte written to the client so far.
\<close>

record handler =
  request_version :: string
  command :: "string option"
  path :: string
  headers :: "(string \<times> string) list"
  close_connection :: bool
  headers_buffer :: "string list option"
  wfile :: string

definition CRLF :: string where
  "CRLF = [CHR 0x0D, CHR 0x0A]"

text \<open>\<^verbatim>\<open>str.lower()\<close> on a latin-1 string: A-Z and the accented capitals
  0xC0-0xDE (but not the multiplication sign 0xD7) move up by 32.\<close>

definition lower_char :: "char \<Rightarrow> char" where
  "lower_char c =
     (let n = of_char c :: nat
      in if (65 \<le> n \<and> n \<le> 90) \<or> (192 \<le> n \<and> n \<le> 222 \<and> n \<noteq> 215)
         then char_of (n + 32) else c)"

definition lower :: "string \<Rightarrow> string" where
  "lower s = map lower_char s"

text \<open>
  \<^verbatim>\<open>
  def send_header(self, keyword, value):
      if self.request_version != 'HTTP/0.9':
          if not hasattr(self, '_headers_buffer'):
              self._headers_buffer = []
          self._headers_buffer.append(
              ("%s: %s\r\n" % (keyword, value)).encode('latin-1', 'strict'))
      if keyword.lower() == 'connection':
          if value.lower() == 'close':
              self.close_connection = True
          elif value.lower() == 'keep-alive':
              self.close_connection = False
  \<close>
\<close>

definition buffer_of :: "handler \<Rightarrow> string list" where
  "buffer_of h = (case headers_buffer h of None \<Rightarrow> [] | Some b \<Rightarrow> b)"

definition send_header :: "handler \<Rightarrow> string \<Rightarrow> string \<Rightarrow> handler" where
  "send_header h keyword val =
     (let h1 = (if request_version h \<noteq> ''HTTP/0.9''
                then h\<lparr>headers_buffer := Some (buffer_of h @ [keyword @ '': '' @ val @ CRLF])\<rparr>
                else h)
      in if lower keyword = ''connection''
         then (if lower val = ''close'' then h1\<lparr>close_connection := True\<rparr>
               else if lower val = ''keep-alive'' then h1\<lparr>close_connection := False\<rparr>
               else h1)
         else h1)"

text \<open>
  \<^verbatim>\<open>
  def flush_headers(self):
      if hasattr(self, '_headers_buffer'):
          self.wfile.write(b"".join(self._headers_buffer))
          self._headers_buffer = []
  \<close>
\<close>

definition flush_headers :: "handler \<Rightarrow> handler" where
  "flush_headers h =
     (case headers_buffer h of
        None \<Rightarrow> h
      | Some b \<Rightarrow> h\<lparr>wfile := wfile h @ concat b, headers_buffer := Some []\<rparr>)"

text \<open>
  The inherited method, reached through \<^verbatim>\<open>super().end_headers()\<close>:
  \<^verbatim>\<open>
  def end_headers(self):
      if self.request_version != 'HTTP/0.9':
          self._headers_buffer.append(b"\r\n")
          self.flush_headers()
  \<close>
  Appending to a buffer that does not exist raises \<^verbatim>\<open>AttributeError\<close>.
\<close>

definition base_end_headers :: "handler \<Rightarrow> py_error + handler" where
  "base_end_headers h =
     (if request_version h \<noteq> ''HTTP/0.9''
      then (case headers_buffer h of
              None \<Rightarrow> Inl AttributeError
            | Some b \<Rightarrow> Inr (flush_headers (h\<lparr>headers_buffer := Some (b @ [CRLF])\<rparr>)))
      else Inr h)"

text \<open>The override of \<^verbatim>\<open>src/server.py\<close>, lines 5 to 9.\<close>

definition end_headers :: "handler \<Rightarrow> py_error + handler" where
  "end_headers h =
     (let h1 = send_header h ''Access-Control-Allow-Origin'' ''*'';
          h2 = send_header h1 ''Access-Control-Allow-Methods'' ''GET'';
          h3 = send_header h2 ''Cache-Control'' ''no-store, no-cache, must-revalidate''
      in base_end_headers h3)"

section \<open>The script: start-up, serving loop, shutdown\<close>

text \<open>
  The module-level code of \<^verbatim>\<open>src/server.py\<close>, lines 11 to 21:
  \<^verbatim>\<open>
  port = 8000
  print(f"Serveur d\'emarr\'e sur http://localhost:{port}")
  print("Ouvrez votre navigateur et acc\'edez \`a http://localhost:8000/demo/")
  print("Appuyez sur Ctrl+C pour arr\^eter le serveur")

  httpd = HTTPServer(('localhost', port), CORSRequestHandler)
  try:
      httpd.serve_forever()
  except KeyboardInterrupt:
      print("\nServeur arr\^et\'e")
      sys.exit(0)
  \<close>
  (accents are written here in ASCII; in the model each accented letter is the one
  latin-1 character of its code point, for instance \<open>CHR 0xE9\<close> for e-acute).
\<close>

text \<open>Exceptions that cross the script. \<open>OSError\<close> and \<open>OtherException\<close> are
  subclasses of \<^verbatim>\<open>Exception\<close>; \<open>KeyboardInterrupt\<close> derives from \<^verbatim>\<open>BaseException\<close> only.\<close>

datatype exn = OSError | OtherException | KeyboardInterrupt

fun is_Exception :: "exn \<Rightarrow> bool" where
  "is_Exception OSError = True"
| "is_Exception OtherException = True"
| "is_Exception KeyboardInterrupt = False"

text \<open>What the process has done so far. \<open>Running\<close>: still executing (blocked in the
  serving loop); \<open>Exited c\<close>: terminated with exit status \<open>c\<close>; \<open>Uncaught e\<close>: terminated
  by an exception no handler caught (the interpreter prints the traceback).\<close>

datatype status = Running | Exited int | Uncaught exn

record process =
  stdout :: string
  status :: status
  listening :: "(string \<times> nat) option"
  bind_attempts :: "(string \<times> nat) list"
  served :: nat

definition print :: "process \<Rightarrow> string \<Rightarrow> process" where
  "print p s = p\<lparr>stdout := stdout p @ s @ [CHR 0x0A]\<rparr>"

text \<open>\<^verbatim>\<open>str(n)\<close> for a non-negative integer, as the f-string formats \<^verbatim>\<open>{port}\<close>.\<close>

function str_nat :: "nat \<Rightarrow> string" where
  "str_nat n = (if n < 10 then [''0123456789'' ! n]
                else str_nat (n div 10) @ [''0123456789'' ! (n mod 10)])"
  by pat_completeness auto
termination
  by (relation "measure id") auto

declare str_nat.simps [simp del]

text \<open>
  The server object of \<^verbatim>\<open>socketserver.BaseServer\<close>: the address it is bound to and the
  private flag \<^verbatim>\<open>__shutdown_request\<close>, which \<^verbatim>\<open>__init__\<close> sets to \<^verbatim>\<open>False\<close> and only
  \<^verbatim>\<open>shutdown()\<close> sets to \<^verbatim>\<open>True\<close>.
\<close>

record server =
  server_address :: "string \<times> nat"
  shutdown_request :: bool
  handled :: nat

text \<open>\<open>server_address\<close> is the address given to \<^verbatim>\<open>bind\<close>; \<open>handled\<close> counts the calls of
  \<^verbatim>\<open>process_request\<close>, that is the connections given to a request handler.\<close>

text \<open>
  What lies outside the program. \<open>argv\<close> and \<open>environ\<close> are the command line and the
  environment of the process; \<open>bind_error\<close> tells whether binding and listening on an
  address fails (port in use, permission denied); \<open>events\<close> is what the serving loop
  meets, one per turn of its \<^verbatim>\<open>select\<close>.
\<close>

datatype ready = Accept_failed | Connection "exn option"

datatype event = Timeout | Ready ready | Interrupt

text \<open>
  \<open>Timeout\<close>: \<^verbatim>\<open>select\<close> returned after \<^verbatim>\<open>poll_interval\<close> with nothing to read.
  \<open>Ready r\<close>: the listening socket is readable; \<open>Accept_failed\<close> when \<^verbatim>\<open>get_request\<close> raises
  \<^verbatim>\<open>OSError\<close>, \<open>Connection None\<close> when the request handler ran to its end,
  \<open>Connection (Some e)\<close> when it raised \<open>e\<close> (a \<^verbatim>\<open>SIGINT\<close> that arrives while a request is
  handled is the handler raising \<open>KeyboardInterrupt\<close>).
  \<open>Interrupt\<close>: a \<^verbatim>\<open>SIGINT\<close> while the loop waits in \<^verbatim>\<open>select\<close>.
\<close>

record world =
  argv :: "string list"
  environ :: "(string \<times> string) list"
  bind_error :: "string \<times> nat \<Rightarrow> bool"
  events :: "event list"

text \<open>
  \<^verbatim>\<open>HTTPServer((host, port), Handler)\<close>: \<^verbatim>\<open>TCPServer.__init__\<close> creates the socket, then
  \<^verbatim>\<open>
  try:
      self.server_bind()
      self.server_activate()
  except:
      self.server_close()
      raise
  \<close>
  so a failing bind closes the socket and the \<^verbatim>\<open>OSError\<close> leaves the constructor.
\<close>

definition HTTPServer :: "world \<Rightarrow> string \<times> nat \<Rightarrow> exn + server" where
  "HTTPServer w addr =
     (if bind_error w addr then Inl OSError
      else Inr \<lparr>server_address = addr, shutdown_request = False, handled = 0\<rparr>)"

text \<open>
  \<^verbatim>\<open>BaseServer._handle_request_noblock\<close>, with the outcome of the request handler given by
  the event (\<open>None\<close>: it finished; \<open>Some e\<close>: it raised \<open>e\<close>):
  \<^verbatim>\<open>
  try:
      request, client_address = self.get_request()
  except OSError:
      return
  if self.verify_request(request, client_address):
      try:
          self.process_request(request, client_address)
      except Exception:
          self.handle_error(request, client_address)
          self.shutdown_request(request)
      except:
          self.shutdown_request(request)
          raise
  \<close>
  \<^verbatim>\<open>verify_request\<close> returns \<^verbatim>\<open>True\<close>.
\<close>

datatype loop_result = Returned | Raised exn | Blocked

fun handle_request_noblock :: "server \<Rightarrow> ready \<Rightarrow> exn + server" where
  "handle_request_noblock srv Accept_failed = Inr srv"
| "handle_request_noblock srv (Connection None) = Inr (srv\<lparr>handled := handled srv + 1\<rparr>)"
| "handle_request_noblock srv (Connection (Some e)) =
     (if is_Exception e then Inr (srv\<lparr>handled := handled srv + 1\<rparr>) else Inl e)"

text \<open>
  \<^verbatim>\<open>BaseServer.serve_forever\<close>:
  \<^verbatim>\<open>
  while not self.__shutdown_request:
      ready = selector.select(poll_interval)
      if self.__shutdown_request:
          break
      if ready:
          self._handle_request_noblock()
      self.service_actions()
  \<close>
  Each turn of the loop consumes one event. When the events are used up the loop is
  still waiting in \<^verbatim>\<open>select\<close>: the result is \<open>Blocked\<close>, the loop has not ended.
  A \<^verbatim>\<open>SIGINT\<close> during \<^verbatim>\<open>select\<close> raises \<^verbatim>\<open>KeyboardInterrupt\<close> there.
\<close>

fun serve_forever :: "server \<Rightarrow> event list \<Rightarrow> loop_result \<times> server" where
  "serve_forever srv [] =
     (if shutdown_request srv then (Returned, srv\<lparr>shutdown_request := False\<rparr>)
      else (Blocked, srv))"
| "serve_forever srv (ev # evs) =
     (if shutdown_request srv then (Returned, srv\<lparr>shutdown_request := False\<rparr>)
      else (case ev of
              Interrupt \<Rightarrow> (Raised KeyboardInterrupt, srv)
            | Timeout \<Rightarrow> serve_forever srv evs
            | Ready r \<Rightarrow> (case handle_request_noblock srv r of
                      Inl e \<Rightarrow> (Raised e, srv\<lparr>handled := handled srv + 1\<rparr>)
                    | Inr srv' \<Rightarrow> serve_forever srv' evs)))"

text \<open>The events that deliver a \<^verbatim>\<open>SIGINT\<close> to the loop: during \<^verbatim>\<open>select\<close>, or while a
  request is being handled.\<close>

definition interrupts :: "event \<Rightarrow> bool" where
  "interrupts ev = (ev = Interrupt \<or> ev = Ready (Connection (Some KeyboardInterrupt)))"

text \<open>The end of the process: the operating system closes every socket it holds.\<close>

definition terminate :: "process \<Rightarrow> status \<Rightarrow> process" where
  "terminate p st = p\<lparr>status := st, listening := None\<rparr>"

definition port :: nat where
  "port = 8000"

definition startup_line1 :: string where
  "startup_line1 =
     ''Serveur d'' @ [CHR 0xE9] @ ''marr'' @ [CHR 0xE9] @ '' sur http://localhost:'' @ str_nat port"

definition startup_line2 :: string where
  "startup_line2 =
     ''Ouvrez votre navigateur et acc'' @ [CHR 0xE9] @ ''dez '' @ [CHR 0xE0] @
     '' http://localhost:8000/demo/''"

definition startup_line3 :: string where
  "startup_line3 = ''Appuyez sur Ctrl+C pour arr'' @ [CHR 0xEA] @ ''ter le serveur''"

definition shutdown_line :: string where
  "shutdown_line = [CHR 0x0A] @ ''Serveur arr'' @ [CHR 0xEA] @ ''t'' @ [CHR 0xE9]"

definition process0 :: process where
  "process0 = \<lparr>stdout = [], status = Running, listening = None, bind_attempts = [], served = 0\<rparr>"

text \<open>
  The script. An exception that leaves \<^verbatim>\<open>HTTPServer(...)\<close> is outside the \<^verbatim>\<open>try\<close>; one
  that leaves \<^verbatim>\<open>serve_forever()\<close> is caught only if it is a \<^verbatim>\<open>KeyboardInterrupt\<close>.
  \<^verbatim>\<open>sys.exit(0)\<close> raises \<^verbatim>\<open>SystemExit(0)\<close>, which ends the process with status 0. Were
  \<^verbatim>\<open>serve_forever()\<close> to return, the script would end and the process exit with status 0
  without a message.
\<close>

definition main :: "world \<Rightarrow> process" where
  "main w =
     (let p1 = print process0 startup_line1;
          p2 = print p1 startup_line2;
          p3 = print p2 startup_line3;
          addr = (''localhost'', port);
          p4 = p3\<lparr>bind_attempts := bind_attempts p3 @ [addr]\<rparr>
      in case HTTPServer w addr of
           Inl e \<Rightarrow> terminate p4 (Uncaught e)
         | Inr httpd \<Rightarrow>
             (let p5 = p4\<lparr>listening := Some (server_address httpd)\<rparr>
              in case serve_forever httpd (events w) of
                   (Raised KeyboardInterrupt, httpd') \<Rightarrow>
                      terminate (print (p5\<lparr>served := handled httpd'\<rparr>) shutdown_line) (Exited 0)
                 | (Raised e, httpd') \<Rightarrow> terminate (p5\<lparr>served := handled httpd'\<rparr>) (Uncaught e)
                 | (Returned, httpd') \<Rightarrow> terminate (p5\<lparr>served := handled httpd'\<rparr>) (Exited 0)
                 | (Blocked, httpd') \<Rightarrow> p5\<lparr>served := handled httpd'\<rparr>))"

section \<open>Responses of the inherited handler\<close>

text \<open>
  Every response of \<^verbatim>\<open>CORSRequestHandler\<close> is produced by methods it inherits, which
  call \<^verbatim>\<open>self.end_headers()\<close>: by dynamic dispatch that is the override above. The
  inherited methods are embedded from CPython 3.11's \<^verbatim>\<open>Lib/http/server.py\<close>.

  A call into the file system or the library ends in one of three ways: it returns a value,
  it raises \<^verbatim>\<open>OSError\<close> (which \<^verbatim>\<open>send_head\<close> and \<^verbatim>\<open>list_directory\<close> catch at some call sites
  and answer with 404), or it raises another exception, which no method of the handler
  catches. \<^verbatim>\<open>open('/srv/www/\x00', 'rb')\<close> raises \<^verbatim>\<open>ValueError\<close> (embedded null byte); a path
  or a directory entry with a lone surrogate raises \<^verbatim>\<open>UnicodeEncodeError\<close> when it is encoded.
\<close>

datatype 'a outcome = Ok 'a | Fails_OSError | Fails py_error

text \<open>
  \<open>env\<close> holds what those methods take from outside the handler object:
  \<^item> \<open>version_string\<close>, \<open>date_time_string\<close>: \<^verbatim>\<open>self.version_string()\<close> (server and interpreter
    version) and \<^verbatim>\<open>self.date_time_string()\<close> (the clock);
  \<^item> \<open>responses\<close>: the table \<^verbatim>\<open>self.responses\<close>, status code to short and long message;
  \<^item> \<open>error_body\<close>: the error page,
    \<^verbatim>\<open>(self.error_message_format % {...}).encode('UTF-8', 'replace')\<close>;
  \<^item> \<open>directory\<close>: \<^verbatim>\<open>self.directory\<close>, which \<^verbatim>\<open>__init__\<close> sets to \<^verbatim>\<open>os.getcwd()\<close>: the document root;
  \<^item> the file system: \<open>isdir\<close> and \<open>isfile\<close> (\<^verbatim>\<open>os.path.isdir\<close>, \<^verbatim>\<open>os.path.isfile\<close>, which
    return \<^verbatim>\<open>False\<close> where \<^verbatim>\<open>os.stat\<close> raises \<^verbatim>\<open>OSError\<close> or \<^verbatim>\<open>ValueError\<close>);
    \<open>open_rb\<close>, the two statements \<^verbatim>\<open>f = open(path, 'rb')\<close> and \<^verbatim>\<open>fs = os.fstat(f.fileno())\<close>:
    \<open>Fails_OSError\<close> when \<^verbatim>\<open>open\<close> raises \<^verbatim>\<open>OSError\<close>, \<open>Fails err\<close> when \<^verbatim>\<open>open\<close> raises another
    exception or \<^verbatim>\<open>os.fstat\<close> raises any; and \<open>listing\<close>, the statements of \<^verbatim>\<open>list_directory\<close>
    from \<^verbatim>\<open>os.listdir(path)\<close> to \<^verbatim>\<open>encoded = '\n'.join(r).encode(enc, 'surrogateescape')\<close>, which
    build the page from the directory entries and \<^verbatim>\<open>self.path\<close>: \<open>Fails_OSError\<close> when
    \<^verbatim>\<open>os.listdir\<close> raises \<^verbatim>\<open>OSError\<close>, \<open>Fails err\<close> when \<^verbatim>\<open>os.listdir\<close> raises another exception or
    a later statement raises (\<^verbatim>\<open>encode\<close> raises \<^verbatim>\<open>UnicodeEncodeError\<close> on a lone surrogate that
    is not an escaped byte);
  \<^item> library functions: \<open>unquote\<close> (\<^verbatim>\<open>urllib.parse.unquote\<close> with the fallback of
    \<^verbatim>\<open>translate_path\<close>; its result stands for the decoded \<^verbatim>\<open>str\<close>, which the handler only
    splits at \<^verbatim>\<open>'/'\<close>, compares with \<^verbatim>\<open>'.'\<close> and \<^verbatim>\<open>'..'\<close>, and hands to the file system),
    \<open>guess_type\<close> (\<^verbatim>\<open>self.guess_type\<close>, from the \<^verbatim>\<open>mimetypes\<close> tables), \<open>urlsplit_path\<close>
    (\<^verbatim>\<open>urllib.parse.urlsplit(p).path\<close>; \<^verbatim>\<open>urlsplit\<close> raises \<^verbatim>\<open>ValueError\<close> on a malformed
    network location), \<open>redirect_url\<close> (\<^verbatim>\<open>urlunsplit\<close> of the parts with \<^verbatim>\<open>'/'\<close> appended to the
    path), \<open>fs_encoding\<close> (\<^verbatim>\<open>sys.getfilesystemencoding()\<close>), \<open>not_modified_since\<close> (the
    statements of \<^verbatim>\<open>send_head\<close> that compare the date of an \<^verbatim>\<open>If-Modified-Since\<close> value with the
    file's modification time: \<open>Inr True\<close> when the value parses to a UTC time not before it,
    \<open>Inl err\<close> when \<^verbatim>\<open>datetime.fromtimestamp\<close> raises on the modification time) and \<open>repr\<close>
    (\<^verbatim>\<open>'%r' % s\<close>, the quoted form of a string in messages).

  A file object carries what \<^verbatim>\<open>send_head\<close> and \<^verbatim>\<open>copyfile\<close> read from it: its bytes, its
  size \<^verbatim>\<open>fs[6]\<close>, and \<^verbatim>\<open>self.date_time_string(fs.st_mtime)\<close>, which raises on a modification
  time outside the range of the calendar.

  Outside the model: the socket (every write to \<^verbatim>\<open>self.wfile\<close> succeeds and reading the file
  in \<^verbatim>\<open>copyfile\<close> returns all its bytes) and the log lines on standard error.
\<close>

record file_object =
  contents :: string
  st_size :: nat
  last_modified :: "py_error + string"

record env =
  version_string :: string
  date_time_string :: string
  responses :: "nat \<Rightarrow> (string \<times> string) option"
  error_body :: "nat \<Rightarrow> string \<Rightarrow> string \<Rightarrow> string"
  directory :: string
  isdir :: "string \<Rightarrow> bool"
  isfile :: "string \<Rightarrow> bool"
  open_rb :: "string \<Rightarrow> file_object outcome"
  listing :: "string \<Rightarrow> string \<Rightarrow> string outcome"
  unquote :: "string \<Rightarrow> string"
  guess_type :: "string \<Rightarrow> string"
  urlsplit_path :: "string \<Rightarrow> py_error + string"
  redirect_url :: "string \<Rightarrow> string"
  fs_encoding :: string
  not_modified_since :: "string \<Rightarrow> file_object \<Rightarrow> py_error + bool"
  repr :: "string \<Rightarrow> string"

text \<open>
  A method of the handler returns its value, or an exception leaves it: the result then
  holds the exception and the handler as it is at that moment, so that what had been written
  to the client before can be read off.
\<close>

type_synonym 'a result = "(py_error \<times> handler) + 'a"

text \<open>The call \<^verbatim>\<open>self.end_headers()\<close> inside an inherited method.\<close>

definition call_end_headers :: "handler \<Rightarrow> handler result" where
  "call_end_headers h =
     (case end_headers h of
        Inl err \<Rightarrow> Inl (err, h)
      | Inr h1 \<Rightarrow> Inr h1)"

definition protocol_version :: string where
  "protocol_version = ''HTTP/1.0''"

definition error_content_type :: string where
  "error_content_type = ''text/html;charset=utf-8''"

text \<open>
  \<^verbatim>\<open>
  def send_response_only(self, code, message=None):
      if self.request_version != 'HTTP/0.9':
          if message is None:
              if code in self.responses:
                  message = self.responses[code][0]
              else:
                  message = ''
          if not hasattr(self, '_headers_buffer'):
              self._headers_buffer = []
          self._headers_buffer.append(("%s %d %s\r\n" %
                  (self.protocol_version, code, message)).encode('latin-1', 'strict'))
  \<close>
\<close>

definition send_response_only :: "env \<Rightarrow> handler \<Rightarrow> nat \<Rightarrow> string option \<Rightarrow> handler" where
  "send_response_only e h code message =
     (if request_version h \<noteq> ''HTTP/0.9''
      then (let msg = (case message of
                         Some m \<Rightarrow> m
                       | None \<Rightarrow> (case responses e code of Some sl \<Rightarrow> fst sl | None \<Rightarrow> []))
            in h\<lparr>headers_buffer :=
                   Some (buffer_of h @
                         [protocol_version @ '' '' @ str_nat code @ '' '' @ msg @ CRLF])\<rparr>)
      else h)"

text \<open>
  \<^verbatim>\<open>
  def send_response(self, code, message=None):
      self.log_request(code)
      self.send_response_only(code, message)
      self.send_header('Server', self.version_string())
      self.send_header('Date', self.date_time_string())
  \<close>
  \<^verbatim>\<open>log_request\<close> writes a line to standard error and nothing else.
\<close>

definition send_response :: "env \<Rightarrow> handler \<Rightarrow> nat \<Rightarrow> string option \<Rightarrow> handler" where
  "send_response e h code message =
     (let h1 = send_response_only e h code message;
          h2 = send_header h1 ''Server'' (version_string e)
      in send_header h2 ''Date'' (date_time_string e))"

text \<open>
  \<^verbatim>\<open>
  def send_error(self, code, message=None, explain=None):
      try:
          shortmsg, longmsg = self.responses[code]
      except KeyError:
          shortmsg, longmsg = '???', '???'
      if message is None:
          message = shortmsg
      if explain is None:
          explain = longmsg
      self.log_error("code %d, message %s", code, message)
      self.send_response(code, message)
      self.send_header('Connection', 'close')
      body = None
      if (code >= 200 and
          code not in (HTTPStatus.NO_CONTENT, HTTPStatus.RESET_CONTENT,
                       HTTPStatus.NOT_MODIFIED)):
          content = (self.error_message_format % {
              'code': code,
              'message': html.escape(message, quote=False),
              'explain': html.escape(explain, quote=False)})
          body = content.encode('UTF-8', 'replace')
          self.send_header("Content-Type", self.error_content_type)
          self.send_header('Content-Length', str(len(body)))
      self.end_headers()
      if self.command != 'HEAD' and body:
          self.wfile.write(body)
  \<close>
\<close>

definition send_error ::
  "env \<Rightarrow> handler \<Rightarrow> nat \<Rightarrow> string option \<Rightarrow> string option \<Rightarrow> handler result" where
  "send_error e h code message explain =
     (let sl = (case responses e code of Some sl \<Rightarrow> sl | None \<Rightarrow> (''???'', ''???''));
          msg = (case message of None \<Rightarrow> fst sl | Some m \<Rightarrow> m);
          expl = (case explain of None \<Rightarrow> snd sl | Some x \<Rightarrow> x);
          h1 = send_response e h code (Some msg);
          h2 = send_header h1 ''Connection'' ''close'';
          has_body = (code \<ge> 200 \<and> code \<notin> {204, 205, 304});
          body = (if has_body then error_body e code msg expl else []);
          h3 = (if has_body
                then send_header (send_header h2 ''Content-Type'' error_content_type)
                       ''Content-Length'' (str_nat (length body))
                else h2)
      in case call_end_headers h3 of
           Inl x \<Rightarrow> Inl x
         | Inr h4 \<Rightarrow>
             Inr (if command h4 \<noteq> Some ''HEAD'' \<and> body \<noteq> []
                  then h4\<lparr>wfile := wfile h4 @ body\<rparr> else h4))"

section \<open>Serving files: \<^verbatim>\<open>SimpleHTTPRequestHandler\<close>\<close>

subsection \<open>String and path helpers\<close>

text \<open>\<^verbatim>\<open>s.split(c, 1)[0]\<close>: the part of \<open>s\<close> before the first \<open>c\<close>.\<close>

definition before_first :: "char \<Rightarrow> string \<Rightarrow> string" where
  "before_first c s = takeWhile (\<lambda>x. x \<noteq> c) s"

text \<open>\<^verbatim>\<open>s.split(c)\<close>: always at least one piece.\<close>

fun split_on :: "char \<Rightarrow> string \<Rightarrow> string list" where
  "split_on c [] = [[]]"
| "split_on c (x # xs) =
     (if x = c then [] # split_on c xs
      else (case split_on c xs of
              w # ws \<Rightarrow> (x # w) # ws
            | [] \<Rightarrow> [[x]]))"

text \<open>\<^verbatim>\<open>c.join(ws)\<close>.\<close>

fun join_with :: "char \<Rightarrow> string list \<Rightarrow> string" where
  "join_with c [] = []"
| "join_with c [w] = w"
| "join_with c (w # ws) = w @ c # join_with c ws"

text \<open>\<^verbatim>\<open>str.isspace\<close> on one latin-1 character, and \<^verbatim>\<open>str.rstrip()\<close>.\<close>

definition isspace :: "char \<Rightarrow> bool" where
  "isspace c =
     (let n = of_char c :: nat
      in (9 \<le> n \<and> n \<le> 13) \<or> (28 \<le> n \<and> n \<le> 32) \<or> n = 133 \<or> n = 160)"

definition rstrip :: "string \<Rightarrow> string" where
  "rstrip s = rev (dropWhile isspace (rev s))"

definition endswith :: "string \<Rightarrow> string \<Rightarrow> bool" where
  "endswith s suf = (length suf \<le> length s \<and> drop (length s - length suf) s = suf)"

definition startswith :: "string \<Rightarrow> string \<Rightarrow> bool" where
  "startswith s pre = (take (length pre) s = pre)"

text \<open>
  \<^verbatim>\<open>posixpath.normpath\<close>, in the form of its Python definition (where the interpreter
  provides \<^verbatim>\<open>posix._path_normpath\<close> that is used instead, with the same results):
  \<^verbatim>\<open>
  if path == '': return '.'
  initial_slashes = path.startswith('/')
  if (initial_slashes and path.startswith('//') and not path.startswith('///')):
      initial_slashes = 2
  comps = path.split('/')
  new_comps = []
  for comp in comps:
      if comp in ('', '.'):
          continue
      if (comp != '..' or (not initial_slashes and not new_comps) or
           (new_comps and new_comps[-1] == '..')):
          new_comps.append(comp)
      elif new_comps:
          new_comps.pop()
  comps = new_comps
  path = '/'.join(comps)
  if initial_slashes:
      path = '/' * initial_slashes + path
  return path or '.'
  \<close>
\<close>

fun normpath_comps :: "nat \<Rightarrow> string list \<Rightarrow> string list \<Rightarrow> string list" where
  "normpath_comps i [] new_comps = new_comps"
| "normpath_comps i (cmp # comps) new_comps =
     (if cmp = [] \<or> cmp = ''.'' then normpath_comps i comps new_comps
      else if cmp \<noteq> ''..'' \<or> (i = 0 \<and> new_comps = []) \<or>
              (new_comps \<noteq> [] \<and> last new_comps = ''..'')
           then normpath_comps i comps (new_comps @ [cmp])
      else if new_comps \<noteq> [] then normpath_comps i comps (butlast new_comps)
      else normpath_comps i comps new_comps)"

definition normpath :: "string \<Rightarrow> string" where
  "normpath p =
     (if p = [] then ''.''
      else (let i = (if startswith p ''/''
                     then (if startswith p ''//'' \<and> \<not> startswith p ''///'' then 2 else 1)
                     else 0);
                comps = normpath_comps i (split_on CHR ''/'' p) [];
                q = replicate i CHR ''/'' @ join_with CHR ''/'' comps
            in if q = [] then ''.'' else q))"

text \<open>
  \<^verbatim>\<open>posixpath.dirname\<close>:
  \<^verbatim>\<open>
  i = p.rfind('/') + 1
  head = p[:i]
  if head and head != '/' * len(head):
      head = head.rstrip('/')
  return head
  \<close>
\<close>

definition dirname :: "string \<Rightarrow> string" where
  "dirname p =
     (let head = rev (dropWhile (\<lambda>x. x \<noteq> CHR ''/'') (rev p))
      in if head \<noteq> [] \<and> head \<noteq> replicate (length head) CHR ''/''
         then rev (dropWhile (\<lambda>x. x = CHR ''/'') (rev head))
         else head)"

text \<open>
  \<^verbatim>\<open>posixpath.join(a, b)\<close>:
  \<^verbatim>\<open>
  if b.startswith('/'):
      path = b
  elif not path or path.endswith('/'):
      path += b
  else:
      path += '/' + b
  \<close>
\<close>

definition path_join :: "string \<Rightarrow> string \<Rightarrow> string" where
  "path_join a b =
     (if startswith b ''/'' then b
      else if a = [] \<or> endswith a ''/'' then a @ b
      else a @ ''/'' @ b)"

subsection \<open>\<^verbatim>\<open>translate_path\<close>\<close>

text \<open>
  \<^verbatim>\<open>
  def translate_path(self, path):
      path = path.split('?',1)[0]
      path = path.split('#',1)[0]
      trailing_slash = path.rstrip().endswith('/')
      try:
          path = urllib.parse.unquote(path, errors='surrogatepass')
      except UnicodeDecodeError:
          path = urllib.parse.unquote(path)
      path = posixpath.normpath(path)
      words = path.split('/')
      words = filter(None, words)
      path = self.directory
      for word in words:
          if os.path.dirname(word) or word in (os.curdir, os.pardir):
              # Ignore components that are not a simple file/directory name
              continue
          path = os.path.join(path, word)
      if trailing_slash:
          path += '/'
      return path
  \<close>
\<close>

definition simple_name :: "string \<Rightarrow> bool" where
  "simple_name word = (\<not> (dirname word \<noteq> [] \<or> word = ''.'' \<or> word = ''..''))"

definition translate_words :: "env \<Rightarrow> string \<Rightarrow> string list" where
  "translate_words e p =
     filter (\<lambda>w. w \<noteq> [])
       (split_on CHR ''/''
          (normpath (unquote e (before_first CHR ''#'' (before_first CHR ''?'' p)))))"

definition translate_path :: "env \<Rightarrow> string \<Rightarrow> string" where
  "translate_path e p =
     (let p1 = before_first CHR ''#'' (before_first CHR ''?'' p);
          trailing_slash = endswith (rstrip p1) ''/'';
          joined = foldl (\<lambda>acc word. if simple_name word then path_join acc word else acc)
                     (directory e) (translate_words e p)
      in if trailing_slash then joined @ ''/'' else joined)"

subsection \<open>\<^verbatim>\<open>send_head\<close>, \<^verbatim>\<open>list_directory\<close>, \<^verbatim>\<open>do_GET\<close>, \<^verbatim>\<open>do_HEAD\<close>\<close>

text \<open>Looking a field up in \<^verbatim>\<open>self.headers\<close>: names compare without case, the first
  match wins.\<close>

definition header_get :: "(string \<times> string) list \<Rightarrow> string \<Rightarrow> string option" where
  "header_get hs name = map_of (map (\<lambda>kv. (lower (fst kv), snd kv)) hs) (lower name)"

text \<open>
  The result of \<^verbatim>\<open>send_head\<close> and \<^verbatim>\<open>list_directory\<close> is the handler and the file object
  to copy to the client (its bytes), or \<^verbatim>\<open>None\<close>.

  \<^verbatim>\<open>
  def list_directory(self, path):
      try:
          list = os.listdir(path)
      except OSError:
          self.send_error(HTTPStatus.NOT_FOUND, "No permission to list directory")
          return None
      ...                      # builds the page
      encoded = '\n'.join(r).encode(enc, 'surrogateescape')
      ...
      self.send_response(HTTPStatus.OK)
      self.send_header("Content-type", "text/html; charset=%s" % enc)
      self.send_header("Content-Length", str(len(encoded)))
      self.end_headers()
      return f
  \<close>
  An exception other than the caught \<^verbatim>\<open>OSError\<close> leaves the method before anything is sent.
\<close>

definition list_directory :: "env \<Rightarrow> handler \<Rightarrow> string \<Rightarrow> (handler \<times> string option) result" where
  "list_directory e h p =
     (case listing e p (path h) of
        Fails_OSError \<Rightarrow>
          (case send_error e h 404 (Some ''No permission to list directory'') None of
             Inl x \<Rightarrow> Inl x
           | Inr h1 \<Rightarrow> Inr (h1, None))
      | Fails err \<Rightarrow> Inl (err, h)
      | Ok encoded \<Rightarrow>
          (let h1 = send_response e h 200 None;
               h2 = send_header h1 ''Content-type'' (''text/html; charset='' @ fs_encoding e);
               h3 = send_header h2 ''Content-Length'' (str_nat (length encoded))
           in case call_end_headers h3 of
                Inl x \<Rightarrow> Inl x
              | Inr h4 \<Rightarrow> Inr (h4, Some encoded)))"

text \<open>
  The second half of \<^verbatim>\<open>send_head\<close>, from \<^verbatim>\<open>ctype = self.guess_type(path)\<close> on:
  \<^verbatim>\<open>
  ctype = self.guess_type(path)
  if path.endswith("/"):
      self.send_error(HTTPStatus.NOT_FOUND, "File not found")
      return None
  try:
      f = open(path, 'rb')
  except OSError:
      self.send_error(HTTPStatus.NOT_FOUND, "File not found")
      return None
  try:
      fs = os.fstat(f.fileno())
      if ("If-Modified-Since" in self.headers
              and "If-None-Match" not in self.headers):
          ...                       # ims parsed; last_modif <= ims:
                  self.send_response(HTTPStatus.NOT_MODIFIED)
                  self.end_headers()
                  f.close()
                  return None
      self.send_response(HTTPStatus.OK)
      self.send_header("Content-type", ctype)
      self.send_header("Content-Length", str(fs[6]))
      self.send_header("Last-Modified", self.date_time_string(fs.st_mtime))
      self.end_headers()
      return f
  except:
      f.close()
      raise
  \<close>
  Only \<^verbatim>\<open>OSError\<close> from \<^verbatim>\<open>open\<close> is answered with 404. Any other exception of \<^verbatim>\<open>open\<close>, and any
  exception of the statements after it, leaves the method: nothing has been written then,
  since the header lines are still in the buffer.

  The test of the \<^verbatim>\<open>If-Modified-Since\<close> field first.
\<close>

definition unmodified :: "env \<Rightarrow> handler \<Rightarrow> file_object \<Rightarrow> py_error + bool" where
  "unmodified e h f =
     (case header_get (headers h) ''If-Modified-Since'' of
        None \<Rightarrow> Inr False
      | Some ims \<Rightarrow>
          (if header_get (headers h) ''If-None-Match'' = None
           then not_modified_since e ims f
           else Inr False))"

definition send_file :: "env \<Rightarrow> handler \<Rightarrow> string \<Rightarrow> (handler \<times> string option) result" where
  "send_file e h p =
     (let ctype = guess_type e p
      in if endswith p ''/''
         then (case send_error e h 404 (Some ''File not found'') None of
                 Inl x \<Rightarrow> Inl x
               | Inr h1 \<Rightarrow> Inr (h1, None))
         else (case open_rb e p of
                 Fails_OSError \<Rightarrow>
                   (case send_error e h 404 (Some ''File not found'') None of
                      Inl x \<Rightarrow> Inl x
                    | Inr h1 \<Rightarrow> Inr (h1, None))
               | Fails err \<Rightarrow> Inl (err, h)
               | Ok f \<Rightarrow>
                   (case unmodified e h f of
                      Inl err \<Rightarrow> Inl (err, h)
                    | Inr True \<Rightarrow>
                        (case call_end_headers (send_response e h 304 None) of
                           Inl x \<Rightarrow> Inl x
                         | Inr h1 \<Rightarrow> Inr (h1, None))
                    | Inr False \<Rightarrow>
                        (let h1 = send_response e h 200 None;
                             h2 = send_header h1 ''Content-type'' ctype;
                             h3 = send_header h2 ''Content-Length'' (str_nat (st_size f))
                         in case last_modified f of
                              Inl err \<Rightarrow> Inl (err, h3)
                            | Inr lm \<Rightarrow>
                                (case call_end_headers (send_header h3 ''Last-Modified'' lm) of
                                   Inl x \<Rightarrow> Inl x
                                 | Inr h5 \<Rightarrow> Inr (h5, Some (contents f)))))))"

text \<open>
  The first half of \<^verbatim>\<open>send_head\<close>:
  \<^verbatim>\<open>
  path = self.translate_path(self.path)
  f = None
  if os.path.isdir(path):
      parts = urllib.parse.urlsplit(self.path)
      if not parts.path.endswith('/'):
          self.send_response(HTTPStatus.MOVED_PERMANENTLY)
          new_parts = (parts[0], parts[1], parts[2] + '/', parts[3], parts[4])
          new_url = urllib.parse.urlunsplit(new_parts)
          self.send_header("Location", new_url)
          self.send_header("Content-Length", "0")
          self.end_headers()
          return None
      for index in "index.html", "index.htm":
          index = os.path.join(path, index)
          if os.path.isfile(index):
              path = index
              break
      else:
          return self.list_directory(path)
  \<close>
\<close>

definition send_head :: "env \<Rightarrow> handler \<Rightarrow> (handler \<times> string option) result" where
  "send_head e h =
     (let p = translate_path e (path h)
      in if isdir e p
         then (case urlsplit_path e (path h) of
                 Inl err \<Rightarrow> Inl (err, h)
               | Inr parts_path \<Rightarrow>
                   (if \<not> endswith parts_path ''/''
                    then (let h1 = send_response e h 301 None;
                              h2 = send_header h1 ''Location'' (redirect_url e (path h));
                              h3 = send_header h2 ''Content-Length'' ''0''
                          in case call_end_headers h3 of
                               Inl x \<Rightarrow> Inl x
                             | Inr h4 \<Rightarrow> Inr (h4, None))
                    else if isfile e (path_join p ''index.html'')
                         then send_file e h (path_join p ''index.html'')
                    else if isfile e (path_join p ''index.htm'')
                         then send_file e h (path_join p ''index.htm'')
                    else list_directory e h p))
         else send_file e h p)"

text \<open>
  \<^verbatim>\<open>
  def do_GET(self):
      f = self.send_head()
      if f:
          try:
              self.copyfile(f, self.wfile)
          finally:
              f.close()

  def do_HEAD(self):
      f = self.send_head()
      if f:
          f.close()
  \<close>
  A file object is true whatever it holds; \<^verbatim>\<open>copyfile\<close> writes all its bytes.
\<close>

definition do_GET :: "env \<Rightarrow> handler \<Rightarrow> handler result" where
  "do_GET e h =
     (case send_head e h of
        Inl x \<Rightarrow> Inl x
      | Inr (h1, None) \<Rightarrow> Inr h1
      | Inr (h1, Some bytes) \<Rightarrow> Inr (h1\<lparr>wfile := wfile h1 @ bytes\<rparr>))"

definition do_HEAD :: "env \<Rightarrow> handler \<Rightarrow> handler result" where
  "do_HEAD e h =
     (case send_head e h of
        Inl x \<Rightarrow> Inl x
      | Inr (h1, f) \<Rightarrow> Inr h1)"

section \<open>Reading a request: \<^verbatim>\<open>parse_request\<close> and \<^verbatim>\<open>handle_one_request\<close>\<close>

text \<open>
  What one request brings: the first line as \<^verbatim>\<open>self.rfile.readline(65537)\<close> returns it, and
  the outcome of \<^verbatim>\<open>http.client.parse_headers\<close> on the lines that follow.
\<close>

datatype header_parse =
    Parsed "(string \<times> string) list"
  | LineTooLong string
  | TooManyHeaders string

record request =
  raw_requestline :: string
  header_lines :: header_parse

text \<open>\<^verbatim>\<open>str.split()\<close>: the words between runs of white space.\<close>

fun split_ws_from :: "string \<Rightarrow> string \<Rightarrow> string list" where
  "split_ws_from cur [] = (if cur = [] then [] else [cur])"
| "split_ws_from cur (c # cs) =
     (if isspace c
      then (if cur = [] then split_ws_from [] cs else cur # split_ws_from [] cs)
      else split_ws_from (cur @ [c]) cs)"

definition split_ws :: "string \<Rightarrow> string list" where
  "split_ws s = split_ws_from [] s"

text \<open>\<^verbatim>\<open>s.rstrip('\r\n')\<close> and \<^verbatim>\<open>s.lstrip('/')\<close>.\<close>

definition rstrip_crlf :: "string \<Rightarrow> string" where
  "rstrip_crlf s = rev (dropWhile (\<lambda>c. c = CHR 0x0D \<or> c = CHR 0x0A) (rev s))"

definition lstrip_slash :: "string \<Rightarrow> string" where
  "lstrip_slash s = dropWhile (\<lambda>c. c = CHR ''/'') s"

text \<open>\<^verbatim>\<open>str.isdigit\<close> holds of the ASCII digits and of the superscripts 1, 2, 3 of
  latin-1, and fails on the empty string; \<^verbatim>\<open>int\<close> raises \<^verbatim>\<open>ValueError\<close> unless every
  character is an ASCII digit.\<close>

definition isdigit :: "string \<Rightarrow> bool" where
  "isdigit s = (s \<noteq> [] \<and>
     list_all (\<lambda>c. let n = of_char c :: nat
                    in (48 \<le> n \<and> n \<le> 57) \<or> n = 178 \<or> n = 179 \<or> n = 185) s)"

definition py_int :: "string \<Rightarrow> nat option" where
  "py_int s =
     (if s \<noteq> [] \<and> list_all (\<lambda>c. 48 \<le> (of_char c :: nat) \<and> (of_char c :: nat) \<le> 57) s
      then Some (foldl (\<lambda>acc c. 10 * acc + (of_char c - 48)) 0 s)
      else None)"

text \<open>String comparison \<^verbatim>\<open>a <= b\<close>: by code points, a prefix first.\<close>

fun str_le :: "string \<Rightarrow> string \<Rightarrow> bool" where
  "str_le [] ys = True"
| "str_le (x # xs) [] = False"
| "str_le (x # xs) (y # ys) =
     ((of_char x :: nat) < of_char y \<or> (x = y \<and> str_le xs ys))"

text \<open>
  The version of the request line, from \<^verbatim>\<open>parse_request\<close>; \<open>None\<close> where the code raises
  \<^verbatim>\<open>ValueError\<close>:
  \<^verbatim>\<open>
  if not version.startswith('HTTP/'):
      raise ValueError
  base_version_number = version.split('/', 1)[1]
  version_number = base_version_number.split(".")
  if len(version_number) != 2:
      raise ValueError
  if any(not component.isdigit() for component in version_number):
      raise ValueError("non digit in http version")
  if any(len(component) > 10 for component in version_number):
      raise ValueError("unreasonable length http version")
  version_number = int(version_number[0]), int(version_number[1])
  \<close>
\<close>

definition parse_version :: "string \<Rightarrow> (nat \<times> nat) option" where
  "parse_version version =
     (if \<not> startswith version ''HTTP/'' then None
      else (case split_on CHR ''.'' (drop 5 version) of
              [a, b] \<Rightarrow>
                (if \<not> isdigit a \<or> \<not> isdigit b then None
                 else if length a > 10 \<or> length b > 10 then None
                 else (case (py_int a, py_int b) of
                         (Some m, Some n) \<Rightarrow> Some (m, n)
                       | _ \<Rightarrow> None))
            | _ \<Rightarrow> None))"

definition default_request_version :: string where
  "default_request_version = ''HTTP/0.9''"

text \<open>
  \<^verbatim>\<open>handle_expect_100\<close>:
  \<^verbatim>\<open>
  self.send_response_only(HTTPStatus.CONTINUE)
  self.end_headers()
  return True
  \<close>
\<close>

definition handle_expect_100 :: "env \<Rightarrow> handler \<Rightarrow> (bool \<times> handler) result" where
  "handle_expect_100 e h =
     (case call_end_headers (send_response_only e h 100 None) of
        Inl err \<Rightarrow> Inl err
      | Inr h1 \<Rightarrow> Inr (True, h1))"

text \<open>An error reply inside \<^verbatim>\<open>parse_request\<close>: \<^verbatim>\<open>self.send_error(...); return False\<close>.\<close>

definition reject ::
  "env \<Rightarrow> handler \<Rightarrow> nat \<Rightarrow> string \<Rightarrow> string option \<Rightarrow> (bool \<times> handler) result" where
  "reject e h code message explain =
     (case send_error e h code (Some message) explain of
        Inl err \<Rightarrow> Inl err
      | Inr h1 \<Rightarrow> Inr (False, h1))"

text \<open>
  The end of \<^verbatim>\<open>parse_request\<close>, once \<^verbatim>\<open>self.headers\<close> is set:
  \<^verbatim>\<open>
  conntype = self.headers.get('Connection', "")
  if conntype.lower() == 'close':
      self.close_connection = True
  elif (conntype.lower() == 'keep-alive' and
        self.protocol_version >= "HTTP/1.1"):
      self.close_connection = False
  expect = self.headers.get('Expect', "")
  if (expect.lower() == "100-continue" and
          self.protocol_version >= "HTTP/1.1" and
          self.request_version >= "HTTP/1.1"):
      if not self.handle_expect_100():
          return False
  return True
  \<close>
\<close>

definition after_headers :: "env \<Rightarrow> handler \<Rightarrow> (bool \<times> handler) result" where
  "after_headers e h =
     (let conntype = (case header_get (headers h) ''Connection'' of None \<Rightarrow> [] | Some v \<Rightarrow> v);
          h1 = (if lower conntype = ''close'' then h\<lparr>close_connection := True\<rparr>
                else if lower conntype = ''keep-alive'' \<and> str_le ''HTTP/1.1'' protocol_version
                     then h\<lparr>close_connection := False\<rparr>
                else h);
          expect = (case header_get (headers h1) ''Expect'' of None \<Rightarrow> [] | Some v \<Rightarrow> v)
      in if lower expect = ''100-continue'' \<and> str_le ''HTTP/1.1'' protocol_version \<and>
            str_le ''HTTP/1.1'' (request_version h1)
         then handle_expect_100 e h1
         else Inr (True, h1))"

text \<open>
  The middle of \<^verbatim>\<open>parse_request\<close>, after the version has been dealt with:
  \<^verbatim>\<open>
  if not 2 <= len(words) <= 3:
      self.send_error(HTTPStatus.BAD_REQUEST, "Bad request syntax (%r)" % requestline)
      return False
  command, path = words[:2]
  if len(words) == 2:
      self.close_connection = True
      if command != 'GET':
          self.send_error(HTTPStatus.BAD_REQUEST,
                          "Bad HTTP/0.9 request type (%r)" % command)
          return False
  self.command, self.path = command, path
  if self.path.startswith('//'):
      self.path = '/' + self.path.lstrip('/')
  try:
      self.headers = http.client.parse_headers(self.rfile, _class=self.MessageClass)
  except http.client.LineTooLong as err:
      self.send_error(HTTPStatus.REQUEST_HEADER_FIELDS_TOO_LARGE, "Line too long", str(err))
      return False
  except http.client.HTTPException as err:
      self.send_error(HTTPStatus.REQUEST_HEADER_FIELDS_TOO_LARGE, "Too many headers", str(err))
      return False
  \<close>
\<close>

definition parse_words ::
  "env \<Rightarrow> request \<Rightarrow> handler \<Rightarrow> string \<Rightarrow> string list \<Rightarrow> (bool \<times> handler) result" where
  "parse_words e req h requestline ws =
     (case ws of
        cmd # pth # rest \<Rightarrow>
          (if length ws > 3
           then reject e h 400 (''Bad request syntax ('' @ repr e requestline @ '')'') None
           else (let h1 = (if length ws = 2 then h\<lparr>close_connection := True\<rparr> else h)
                 in if length ws = 2 \<and> cmd \<noteq> ''GET''
                    then reject e h1 400 (''Bad HTTP/0.9 request type ('' @ repr e cmd @ '')'') None
                    else (let h2 = h1\<lparr>command := Some cmd,
                                        path := (if startswith pth ''//''
                                                 then ''/'' @ lstrip_slash pth else pth)\<rparr>
                          in case header_lines req of
                               LineTooLong err \<Rightarrow> reject e h2 431 ''Line too long'' (Some err)
                             | TooManyHeaders err \<Rightarrow>
                                 reject e h2 431 ''Too many headers'' (Some err)
                             | Parsed hs \<Rightarrow> after_headers e (h2\<lparr>headers := hs\<rparr>))))
      | _ \<Rightarrow> reject e h 400 (''Bad request syntax ('' @ repr e requestline @ '')'') None)"

text \<open>
  The beginning of \<^verbatim>\<open>parse_request\<close>:
  \<^verbatim>\<open>
  self.command = None  # set in case of error on the first line
  self.request_version = version = self.default_request_version
  self.close_connection = True
  requestline = str(self.raw_requestline, 'iso-8859-1')
  requestline = requestline.rstrip('\r\n')
  self.requestline = requestline
  words = requestline.split()
  if len(words) == 0:
      return False
  if len(words) >= 3:  # Enough to determine protocol version
      version = words[-1]
      try:
          ...                                   # parse_version
      except (ValueError, IndexError):
          self.send_error(HTTPStatus.BAD_REQUEST, "Bad request version (%r)" % version)
          return False
      if version_number >= (1, 1) and self.protocol_version >= "HTTP/1.1":
          self.close_connection = False
      if version_number >= (2, 0):
          self.send_error(HTTPStatus.HTTP_VERSION_NOT_SUPPORTED,
                          "Invalid HTTP version (%s)" % base_version_number)
          return False
      self.request_version = version
  \<close>
  Until the last line of this part \<^verbatim>\<open>self.request_version\<close> is the default,
  \<^verbatim>\<open>"HTTP/0.9"\<close>: the error replies sent before it go out under that version.
\<close>

definition parse_request :: "env \<Rightarrow> request \<Rightarrow> handler \<Rightarrow> (bool \<times> handler) result" where
  "parse_request e req h =
     (let h0 = h\<lparr>command := None, request_version := default_request_version,
                  close_connection := True\<rparr>;
          requestline = rstrip_crlf (raw_requestline req);
          ws = split_ws requestline
      in if ws = [] then Inr (False, h0)
         else if length ws \<ge> 3
         then (let version = last ws
               in case parse_version version of
                    None \<Rightarrow>
                      reject e h0 400 (''Bad request version ('' @ repr e version @ '')'') None
                  | Some (major, minor) \<Rightarrow>
                      (let h1 = (if (major > 1 \<or> (major = 1 \<and> minor \<ge> 1)) \<and>
                                    str_le ''HTTP/1.1'' protocol_version
                                 then h0\<lparr>close_connection := False\<rparr> else h0)
                       in if major \<ge> 2
                          then reject e h1 505
                                 (''Invalid HTTP version ('' @ drop 5 version @ '')'') None
                          else parse_words e req (h1\<lparr>request_version := version\<rparr>)
                                 requestline ws))
         else parse_words e req h0 requestline ws)"

text \<open>
  \<^verbatim>\<open>
  def handle_one_request(self):
      self.raw_requestline = self.rfile.readline(65537)
      if len(self.raw_requestline) > 65536:
          self.requestline = ''
          self.request_version = ''
          self.command = ''
          self.send_error(HTTPStatus.REQUEST_URI_TOO_LONG)
          return
      if not self.raw_requestline:
          self.close_connection = True
          return
      if not self.parse_request():
          return
      mname = 'do_' + self.command
      if not hasattr(self, mname):
          self.send_error(HTTPStatus.NOT_IMPLEMENTED,
                          "Unsupported method (%r)" % self.command)
          return
      method = getattr(self, mname)
      method()
      self.wfile.flush()
  \<close>
  The class has the methods \<^verbatim>\<open>do_GET\<close> and \<^verbatim>\<open>do_HEAD\<close> of \<^verbatim>\<open>SimpleHTTPRequestHandler\<close> and
  no other whose name starts with \<^verbatim>\<open>do_\<close>.
\<close>

definition handle_one_request :: "env \<Rightarrow> request \<Rightarrow> handler \<Rightarrow> handler result" where
  "handle_one_request e req h =
     (if length (raw_requestline req) > 65536
      then send_error e (h\<lparr>request_version := [], command := Some []\<rparr>) 414 None None
      else if raw_requestline req = [] then Inr (h\<lparr>close_connection := True\<rparr>)
      else (case parse_request e req h of
              Inl err \<Rightarrow> Inl err
            | Inr (False, h1) \<Rightarrow> Inr h1
            | Inr (True, h1) \<Rightarrow>
                (case command h1 of
                   None \<Rightarrow> Inr h1
                 | Some cmd \<Rightarrow>
                     (if cmd = ''GET'' then do_GET e h1
                      else if cmd = ''HEAD'' then do_HEAD e h1
                      else send_error e h1 501
                             (Some (''Unsupported method ('' @ repr e cmd @ '')'')) None))))"

text \<open>The handler object as \<^verbatim>\<open>__init__\<close> leaves it before the first request of a
  connection: nothing written, no header buffer yet.\<close>

definition new_handler :: handler where
  "new_handler = \<lparr>request_version = [], command = None, path = [], headers = [],
                   close_connection = True, headers_buffer = None, wfile = []\<rparr>"

section \<open>An example environment\<close>

text \<open>
  A document root \<^verbatim>\<open>/srv/www\<close> that holds one file, \<^verbatim>\<open>index.html\<close>, of five bytes.
  Opening any other path raises \<^verbatim>\<open>FileNotFoundError\<close>, a subclass of \<^verbatim>\<open>OSError\<close>, unless the
  path holds a null byte: then \<^verbatim>\<open>open\<close> raises \<^verbatim>\<open>ValueError\<close>. The error page is shortened to
  its two variable lines; \<open>unquote\<close>, \<open>urlsplit_path\<close> and \<open>repr\<close> are what the library functions
  return on the paths used below.
\<close>

definition example_file :: file_object where
  "example_file = \<lparr>contents = ''hello'', st_size = 5,
                    last_modified = Inr ''Thu, 01 Jan 2026 00:00:00 GMT''\<rparr>"

definition example_env :: env where
  "example_env =
     \<lparr>version_string = ''SimpleHTTP/0.6 Python/3.11.10'',
      date_time_string = ''Wed, 04 Nov 2026 12:00:00 GMT'',
      responses = (\<lambda>code.
         if code = 200 then Some (''OK'', ''Request fulfilled, document follows'')
         else if code = 400 then Some (''Bad Request'', ''Bad request syntax or unsupported method'')
         else if code = 404 then Some (''Not Found'', ''Nothing matches the given URI'')
         else if code = 501 then Some (''Not Implemented'', ''Server does not support this operation'')
         else None),
      error_body = (\<lambda>code message explain.
         ''<p>Error code: '' @ str_nat code @ ''</p><p>Message: '' @ message @ ''.</p>''),
      directory = ''/srv/www'',
      isdir = (\<lambda>p. p = ''/srv/www'' \<or> p = ''/srv/www/''),
      isfile = (\<lambda>p. p = ''/srv/www/index.html''),
      open_rb = (\<lambda>p. if p = ''/srv/www/index.html'' then Ok example_file
                    else if CHR 0x00 \<in> set p then Fails ValueError
                    else Fails_OSError),
      listing = (\<lambda>p request_path. Fails_OSError),
      unquote = (\<lambda>s. s),
      guess_type = (\<lambda>p. ''text/html''),
      urlsplit_path = (\<lambda>s. Inr s),
      redirect_url = (\<lambda>s. s @ ''/''),
      fs_encoding = ''utf-8'',
      not_modified_since = (\<lambda>ims f. Inr False),
      repr = (\<lambda>s. [CHR 0x27] @ s @ [CHR 0x27])\<rparr>"

definition request_line :: "string \<Rightarrow> request" where
  "request_line s = \<lparr>raw_requestline = s @ CRLF, header_lines = Parsed []\<rparr>"

section \<open>Auxiliary notions for the proofs\<close>

text \<open>The bytes of the three injected header lines followed by the blank line that ends
  the header block.\<close>

definition cors_block :: string where
  "cors_block = ''Access-Control-Allow-Origin: *'' @ CRLF @
     ''Access-Control-Allow-Methods: GET'' @ CRLF @
     ''Cache-Control: no-store, no-cache, must-revalidate'' @ CRLF @ CRLF"

text \<open>\<open>sent w w'\<close>: the output grew from \<open>w\<close> to \<open>w'\<close> and the added bytes contain the
  injected lines.\<close>

definition sent :: "string \<Rightarrow> string \<Rightarrow> bool" where
  "sent w w' = (\<exists>a b. w' = w @ a @ cors_block @ b)"

text \<open>The handler after \<^verbatim>\<open>end_headers\<close>, in closed form.\<close>

definition finalised :: "handler \<Rightarrow> handler" where
  "finalised h =
     (if request_version h = ''HTTP/0.9'' then h
      else h\<lparr>wfile := wfile h @ concat (buffer_of h) @ cors_block, headers_buffer := Some []\<rparr>)"


section \<open>Properties of header finalisation\<close>

lemma lower_ACAO: "lower ''Access-Control-Allow-Origin'' \<noteq> ''connection''"
  by (simp add: lower_def)

lemma lower_ACAM: "lower ''Access-Control-Allow-Methods'' \<noteq> ''connection''"
  by (simp add: lower_def)

lemma lower_CC: "lower ''Cache-Control'' \<noteq> ''connection''"
  by (simp add: lower_def)

lemma end_headers_http09:
  "request_version h = ''HTTP/0.9'' \<Longrightarrow> end_headers h = Inr h"
  by (simp add: end_headers_def send_header_def base_end_headers_def
      lower_ACAO lower_ACAM lower_CC)

lemma end_headers_versioned:
  "request_version h \<noteq> ''HTTP/0.9'' \<Longrightarrow>
   end_headers h = Inr (h\<lparr>wfile := wfile h @ concat (buffer_of h @
       [''Access-Control-Allow-Origin: *'' @ CRLF,
        ''Access-Control-Allow-Methods: GET'' @ CRLF,
        ''Cache-Control: no-store, no-cache, must-revalidate'' @ CRLF,
        CRLF]), headers_buffer := Some []\<rparr>)"
  by (simp add: end_headers_def send_header_def base_end_headers_def flush_headers_def
      buffer_of_def lower_ACAO lower_ACAM lower_CC)

text \<open>
  C7. Whatever headers the inherited file-serving code has put into the buffer before
  the handler finalises the header block, the block written to the client is those
  headers first, then the three injected header lines, then the blank line that ends the
  block. (A response in the style of HTTP/0.9 has no header block: nothing is written.)
\<close>

theorem injected_headers_follow_buffered_headers:
  "\<exists>h'. end_headers h = Inr h' \<and>
        wfile h' = wfile h @
          (if request_version h = ''HTTP/0.9'' then []
           else concat (buffer_of h) @
                ''Access-Control-Allow-Origin: *'' @ CRLF @
                ''Access-Control-Allow-Methods: GET'' @ CRLF @
                ''Cache-Control: no-store, no-cache, must-revalidate'' @ CRLF @
                CRLF)"
proof (cases "request_version h = ''HTTP/0.9''")
  case True
  then show ?thesis by (simp add: end_headers_http09)
next
  case False
  then show ?thesis by (simp add: end_headers_versioned)
qed

section \<open>Properties of the script\<close>

lemma str_nat_port: "str_nat port = ''8000''"
  by (simp add: port_def str_nat.simps)

lemma handle_request_noblock_cases:
  "handle_request_noblock srv r =
     (if r = Connection (Some KeyboardInterrupt) then Inl KeyboardInterrupt
      else Inr (if r = Accept_failed then srv else srv\<lparr>handled := handled srv + 1\<rparr>))"
proof (cases r)
  case Accept_failed
  then show ?thesis by simp
next
  case (Connection eo)
  show ?thesis
  proof (cases eo)
    case None
    with Connection show ?thesis by simp
  next
    case (Some e)
    with Connection show ?thesis by (cases e) simp_all
  qed
qed

lemma handle_request_noblock_flag:
  "handle_request_noblock srv r = Inr srv' \<Longrightarrow> shutdown_request srv' = shutdown_request srv"
  by (auto simp: handle_request_noblock_cases split: if_splits)

lemma serve_forever_result:
  "\<not> shutdown_request srv \<Longrightarrow>
   fst (serve_forever srv evs) =
     (if \<exists>ev \<in> set evs. interrupts ev then Raised KeyboardInterrupt else Blocked)"
proof (induction evs arbitrary: srv)
  case Nil
  then show ?case by simp
next
  case (Cons ev evs)
  show ?case
  proof (cases ev)
    case Timeout
    with Cons show ?thesis by (simp add: interrupts_def)
  next
    case Interrupt
    with Cons show ?thesis by (simp add: interrupts_def)
  next
    case (Ready r)
    show ?thesis
    proof (cases "r = Connection (Some KeyboardInterrupt)")
      case True
      with Ready Cons.prems show ?thesis by (simp add: interrupts_def)
    next
      case False
      then obtain srv' where h: "handle_request_noblock srv r = Inr srv'"
        by (simp add: handle_request_noblock_cases)
      then have "\<not> shutdown_request srv'"
        using Cons.prems handle_request_noblock_flag by blast
      then have "fst (serve_forever srv' evs) =
          (if \<exists>ev \<in> set evs. interrupts ev then Raised KeyboardInterrupt else Blocked)"
        by (rule Cons.IH)
      with Ready False h Cons.prems show ?thesis by (simp add: interrupts_def)
    qed
  qed
qed

lemma main_bind_fails:
  "bind_error w (''localhost'', port) \<Longrightarrow>
   main w = terminate
     ((print (print (print process0 startup_line1) startup_line2) startup_line3)
        \<lparr>bind_attempts := [(''localhost'', port)]\<rparr>) (Uncaught OSError)"
  by (simp add: main_def HTTPServer_def Let_def print_def process0_def)

lemma main_bind_succeeds:
  "\<not> bind_error w (''localhost'', port) \<Longrightarrow>
   main w =
     (let p5 = (print (print (print process0 startup_line1) startup_line2) startup_line3)
                 \<lparr>bind_attempts := [(''localhost'', port)],
                  listening := Some (''localhost'', port)\<rparr>;
          r = serve_forever
                \<lparr>server_address = (''localhost'', port), shutdown_request = False, handled = 0\<rparr>
                (events w);
          p6 = p5\<lparr>served := handled (snd r)\<rparr>
      in if fst r = Raised KeyboardInterrupt then terminate (print p6 shutdown_line) (Exited 0)
         else if fst r = Blocked then p6
         else if fst r = Returned then terminate p6 (Exited 0)
         else terminate p6 (Uncaught (case fst r of Raised e \<Rightarrow> e)))"
  by (simp add: main_def HTTPServer_def Let_def print_def process0_def
      split: prod.splits loop_result.splits exn.splits)

text \<open>
  C3. When the listener is bound and an interrupt reaches the serving loop (while it
  waits for a connection or while it handles one), the process prints the shutdown line
  after what it had printed at start-up, exits with status 0, and holds no listening
  socket afterwards.
\<close>

theorem interrupt_prints_and_exits_zero:
  assumes "\<not> bind_error w (''localhost'', 8000)"
    and "\<exists>ev \<in> set (events w). interrupts ev"
  shows "status (main w) = Exited 0 \<and>
         stdout (main w) =
           startup_line1 @ [CHR 0x0A] @ startup_line2 @ [CHR 0x0A] @ startup_line3 @ [CHR 0x0A] @
           [CHR 0x0A] @ ''Serveur arr'' @ [CHR 0xEA] @ ''t'' @ [CHR 0xE9] @ [CHR 0x0A] \<and>
         listening (main w) = None"
proof -
  let ?srv = "\<lparr>server_address = (''localhost'', port), shutdown_request = False, handled = 0\<rparr>"
  have b: "\<not> bind_error w (''localhost'', port)"
    using assms(1) by (simp add: port_def)
  have "fst (serve_forever ?srv (events w)) = Raised KeyboardInterrupt"
    using assms(2) by (simp add: serve_forever_result)
  then show ?thesis
    by (simp add: main_bind_succeeds [OF b] Let_def terminate_def print_def process0_def
        shutdown_line_def)
qed

theorem interrupt_prints_and_exits_zero_witness:
  "\<not> bind_error \<lparr>argv = [], environ = [], bind_error = (\<lambda>a. False),
        events = [Timeout, Ready (Connection None), Interrupt]\<rparr> (''localhost'', 8000) \<and>
   (\<exists>ev \<in> set (events \<lparr>argv = [], environ = [], bind_error = (\<lambda>a. False),
        events = [Timeout, Ready (Connection None), Interrupt]\<rparr>). interrupts ev) \<and>
   status (main \<lparr>argv = [], environ = [], bind_error = (\<lambda>a. False),
        events = [Timeout, Ready (Connection None), Interrupt]\<rparr>) = Exited 0 \<and>
   listening (main \<lparr>argv = [], environ = [], bind_error = (\<lambda>a. False),
        events = [Timeout, Ready (Connection None), Interrupt]\<rparr>) = None"
  using interrupt_prints_and_exits_zero [of "\<lparr>argv = [], environ = [], bind_error = (\<lambda>a. False),
        events = [Timeout, Ready (Connection None), Interrupt]\<rparr>"]
  by (simp add: interrupts_def)

text \<open>
  C4, evaluated where binding fails (the port is already in use): the three start-up
  lines, the first of which announces that the server has started, are on standard output
  all the same, and the process has died from the \<^verbatim>\<open>OSError\<close> without ever listening.
\<close>

theorem startup_lines_printed_although_bind_fails:
  "stdout (main \<lparr>argv = [], environ = [], bind_error = (\<lambda>a. True), events = []\<rparr>) =
     ''Serveur d'' @ [CHR 0xE9] @ ''marr'' @ [CHR 0xE9] @ '' sur http://localhost:8000'' @ [CHR 0x0A] @
     ''Ouvrez votre navigateur et acc'' @ [CHR 0xE9] @ ''dez '' @ [CHR 0xE0] @
       '' http://localhost:8000/demo/'' @ [CHR 0x0A] @
     ''Appuyez sur Ctrl+C pour arr'' @ [CHR 0xEA] @ ''ter le serveur'' @ [CHR 0x0A] \<and>
   status (main \<lparr>argv = [], environ = [], bind_error = (\<lambda>a. True), events = []\<rparr>) =
     Uncaught OSError \<and>
   listening (main \<lparr>argv = [], environ = [], bind_error = (\<lambda>a. True), events = []\<rparr>) = None"
  by (simp add: main_bind_fails terminate_def print_def process0_def
      startup_line1_def startup_line2_def startup_line3_def str_nat_port)

text \<open>
  C5. When binding the listener to localhost:8000 fails, the process ends with the
  uncaught \<^verbatim>\<open>OSError\<close>: it never listens and no connection was given to a request
  handler.
\<close>

theorem bind_failure_is_fatal_before_serving:
  assumes "bind_error w (''localhost'', 8000)"
  shows "status (main w) = Uncaught OSError \<and> served (main w) = 0 \<and> listening (main w) = None"
proof -
  have "bind_error w (''localhost'', port)"
    using assms by (simp add: port_def)
  then show ?thesis
    by (simp add: main_bind_fails terminate_def print_def process0_def)
qed

theorem bind_failure_is_fatal_before_serving_witness:
  "bind_error \<lparr>argv = [], environ = [], bind_error = (\<lambda>a. snd a = 8000),
       events = [Ready (Connection None), Interrupt]\<rparr> (''localhost'', 8000) \<and>
   status (main \<lparr>argv = [], environ = [], bind_error = (\<lambda>a. snd a = 8000),
       events = [Ready (Connection None), Interrupt]\<rparr>) = Uncaught OSError \<and>
   served (main \<lparr>argv = [], environ = [], bind_error = (\<lambda>a. snd a = 8000),
       events = [Ready (Connection None), Interrupt]\<rparr>) = 0"
  using bind_failure_is_fatal_before_serving [of "\<lparr>argv = [], environ = [],
       bind_error = (\<lambda>a. snd a = 8000), events = [Ready (Connection None), Interrupt]\<rparr>"]
  by simp

text \<open>
  C8. Whatever the command line and the environment are, the script asks for exactly one
  binding, of localhost:8000; while the process runs its listener is that one; and the
  command line and the environment have no influence on anything the process does.
\<close>

theorem host_and_port_are_fixed:
  "bind_attempts (main w) = [(''localhost'', 8000)] \<and>
   listening (main w) = (if status (main w) = Running then Some (''localhost'', 8000) else None) \<and>
   main (w\<lparr>argv := a, environ := e\<rparr>) = main w"
proof (cases "bind_error w (''localhost'', port)")
  case True
  then have "bind_error (w\<lparr>argv := a, environ := e\<rparr>) (''localhost'', port)"
    by simp
  then have "main (w\<lparr>argv := a, environ := e\<rparr>) = main w"
    using True by (simp only: main_bind_fails)
  then show ?thesis
    using True by (simp add: main_bind_fails terminate_def print_def process0_def port_def)
next
  case False
  then have "\<not> bind_error (w\<lparr>argv := a, environ := e\<rparr>) (''localhost'', port)"
    by simp
  then have "main (w\<lparr>argv := a, environ := e\<rparr>) = main w"
    using False by (simp add: main_bind_succeeds)
  then show ?thesis
    using False
    by (simp add: main_bind_succeeds Let_def terminate_def print_def process0_def port_def)
qed

text \<open>
  C9. For the server that \<^verbatim>\<open>HTTPServer\<close> constructs, and for every sequence of events,
  the serving loop never returns. After a sequence without an interrupt (time-outs,
  failed accepts, connections whose handler finishes or raises an \<^verbatim>\<open>Exception\<close>) the loop
  is still waiting; the only way out is a \<^verbatim>\<open>KeyboardInterrupt\<close>, and that only when an
  interrupt was delivered.
\<close>

theorem serve_forever_never_returns:
  assumes "HTTPServer w addr = Inr srv"
  shows "fst (serve_forever srv evs) \<noteq> Returned \<and>
         ((\<forall>ev \<in> set evs. \<not> interrupts ev) \<longrightarrow> fst (serve_forever srv evs) = Blocked) \<and>
         (\<forall>x. fst (serve_forever srv evs) = Raised x \<longrightarrow>
              x = KeyboardInterrupt \<and> (\<exists>ev \<in> set evs. interrupts ev))"
proof -
  have "\<not> shutdown_request srv"
    using assms by (auto simp: HTTPServer_def split: if_splits)
  then have "fst (serve_forever srv evs) =
      (if \<exists>ev \<in> set evs. interrupts ev then Raised KeyboardInterrupt else Blocked)"
    by (rule serve_forever_result)
  then show ?thesis by auto
qed

theorem serve_forever_never_returns_witness:
  "HTTPServer \<lparr>argv = [], environ = [], bind_error = (\<lambda>a. False), events = []\<rparr> (''localhost'', 8000) =
     Inr \<lparr>server_address = (''localhost'', 8000), shutdown_request = False, handled = 0\<rparr> \<and>
   \<not> interrupts Timeout \<and> \<not> interrupts (Ready Accept_failed) \<and>
   \<not> interrupts (Ready (Connection (Some OSError))) \<and> \<not> interrupts (Ready (Connection None)) \<and>
   fst (serve_forever \<lparr>server_address = (''localhost'', 8000), shutdown_request = False, handled = 0\<rparr>
     [Timeout, Ready Accept_failed, Ready (Connection (Some OSError)), Ready (Connection None)]) =
     Blocked"
  using serve_forever_never_returns [of
      "\<lparr>argv = [], environ = [], bind_error = (\<lambda>a. False), events = []\<rparr>"
      "(''localhost'', 8000)"
      "\<lparr>server_address = (''localhost'', 8000), shutdown_request = False, handled = 0\<rparr>"
      "[Timeout, Ready Accept_failed, Ready (Connection (Some OSError)), Ready (Connection None)]"]
  by (simp add: HTTPServer_def interrupts_def)

section \<open>Properties of the responses\<close>

lemma send_header_fields [simp]:
  "request_version (send_header h k v) = request_version h"
  "wfile (send_header h k v) = wfile h"
  "command (send_header h k v) = command h"
  "path (send_header h k v) = path h"
  "headers (send_header h k v) = headers h"
  by (simp_all add: send_header_def Let_def)

lemma send_response_only_fields [simp]:
  "request_version (send_response_only e h c m) = request_version h"
  "wfile (send_response_only e h c m) = wfile h"
  "command (send_response_only e h c m) = command h"
  "path (send_response_only e h c m) = path h"
  "headers (send_response_only e h c m) = headers h"
  by (simp_all add: send_response_only_def Let_def)

lemma send_response_fields [simp]:
  "request_version (send_response e h c m) = request_version h"
  "wfile (send_response e h c m) = wfile h"
  "command (send_response e h c m) = command h"
  "path (send_response e h c m) = path h"
  "headers (send_response e h c m) = headers h"
  by (simp_all add: send_response_def Let_def)

lemma end_headers_finalised: "end_headers h = Inr (finalised h)"
proof (cases "request_version h = ''HTTP/0.9''")
  case True
  then show ?thesis by (simp add: end_headers_http09 finalised_def)
next
  case False
  then show ?thesis by (simp add: end_headers_versioned finalised_def cors_block_def)
qed

lemma call_end_headers_finalised: "call_end_headers h = Inr (finalised h)"
  by (simp add: call_end_headers_def end_headers_finalised)

lemma finalised_fields [simp]:
  "request_version (finalised h) = request_version h"
  "command (finalised h) = command h"
  "path (finalised h) = path h"
  "headers (finalised h) = headers h"
  by (simp_all add: finalised_def)

lemma finalised_http09: "request_version h = ''HTTP/0.9'' \<Longrightarrow> wfile (finalised h) = wfile h"
  by (simp add: finalised_def)

lemma sentI: "w' = w @ a @ cors_block @ b \<Longrightarrow> sent w w'"
  unfolding sent_def by blast

lemma finalised_sent:
  "request_version h \<noteq> ''HTTP/0.9'' \<Longrightarrow> wfile h = w \<Longrightarrow> sent w (wfile (finalised h))"
  by (rule sentI [where a = "concat (buffer_of h)" and b = "[]"]) (simp add: finalised_def)

lemma sent_append: "sent w w' \<Longrightarrow> sent w (w' @ c)"
proof -
  assume "sent w w'"
  then obtain a b where "w' = w @ a @ cors_block @ b"
    unfolding sent_def by blast
  then have "w' @ c = w @ a @ cors_block @ (b @ c)" by simp
  then show ?thesis by (rule sentI)
qed

lemma send_error_sent:
  "\<exists>h'. send_error e h code m x = Inr h' \<and> request_version h' = request_version h \<and>
        command h' = command h \<and>
        (request_version h \<noteq> ''HTTP/0.9'' \<longrightarrow> sent (wfile h) (wfile h'))"
  by (auto simp: send_error_def Let_def call_end_headers_finalised
      intro!: finalised_sent sent_append)



















lemma lower_Connection: "lower ''Connection'' = ''connection''"
  by code_simp

lemma lower_close: "lower ''close'' = ''close''"
  by code_simp

lemma lower_others:
  "lower ''Server'' \<noteq> ''connection''"
  "lower ''Date'' \<noteq> ''connection''"
  "lower ''Content-Type'' \<noteq> ''connection''"
  "lower ''Content-type'' \<noteq> ''connection''"
  "lower ''Content-Length'' \<noteq> ''connection''"
  "lower ''Last-Modified'' \<noteq> ''connection''"
  "lower ''Location'' \<noteq> ''connection''"
  by (simp_all add: lower_def)

lemmas eval_simps =
  handle_one_request_def parse_request_def parse_words_def after_headers_def reject_def
  send_error_def send_response_def send_response_only_def send_header_def
  end_headers_finalised call_end_headers_def finalised_def cors_block_def buffer_of_def
  do_GET_def do_HEAD_def send_head_def send_file_def unmodified_def list_directory_def
  translate_path_def translate_words_def simple_name_def dirname_def path_join_def
  normpath_def before_first_def rstrip_def endswith_def startswith_def isspace_def
  split_ws_def rstrip_crlf_def lstrip_slash_def parse_version_def isdigit_def py_int_def
  header_get_def default_request_version_def protocol_version_def error_content_type_def
  example_env_def example_file_def request_line_def new_handler_def CRLF_def Let_def
  lower_Connection lower_close lower_others lower_ACAO lower_ACAM lower_CC
  str_nat.simps


lemma foldl_simple_names:
  "foldl (\<lambda>acc word. if simple_name word then path_join acc word else acc) d ws =
   foldl path_join d (filter simple_name ws)"
  by (induction ws arbitrary: d) simp_all

lemma split_on_no_sep: "w \<in> set (split_on c s) \<Longrightarrow> c \<notin> set w"
proof (induction s arbitrary: w)
  case Nil
  then show ?case by simp
next
  case (Cons x xs)
  show ?case
  proof (cases "x = c")
    case True
    with Cons show ?thesis by auto
  next
    case False
    with Cons show ?thesis by (cases "split_on c xs") auto
  qed
qed

lemma translate_path_names:
  "\<exists>names. translate_path e p =
       foldl path_join (directory e) names @
         (if endswith (rstrip (before_first CHR ''#'' (before_first CHR ''?'' p))) ''/''
          then ''/'' else []) \<and>
     list_all (\<lambda>n. n \<noteq> [] \<and> n \<noteq> ''.'' \<and> n \<noteq> ''..'' \<and> CHR ''/'' \<notin> set n) names"
proof -
  let ?names = "filter simple_name (translate_words e p)"
  have "list_all (\<lambda>n. n \<noteq> [] \<and> n \<noteq> ''.'' \<and> n \<noteq> ''..'' \<and> CHR ''/'' \<notin> set n) ?names"
    by (auto simp: list_all_iff translate_words_def simple_name_def dest: split_on_no_sep)
  moreover have "translate_path e p = foldl path_join (directory e) ?names @
         (if endswith (rstrip (before_first CHR ''#'' (before_first CHR ''?'' p))) ''/''
          then ''/'' else [])"
    by (simp add: translate_path_def Let_def foldl_simple_names)
  ultimately show ?thesis by blast
qed

lemma send_error_Inr: "\<exists>h'. send_error e h code m x = Inr h'"
  using send_error_sent by blast

lemma send_file_source:
  "send_file e h q = Inr (h', Some bytes) \<Longrightarrow> \<exists>f. open_rb e q = Ok f \<and> bytes = contents f"
proof -
  assume a: "send_file e h q = Inr (h', Some bytes)"
  obtain h1 where se: "send_error e h 404 (Some ''File not found'') None = Inr h1"
    using send_error_Inr by blast
  show ?thesis
  proof (cases "endswith q ''/''")
    case True
    with a se show ?thesis by (simp add: send_file_def Let_def)
  next
    case False
    note ns = False
    show ?thesis
    proof (cases "open_rb e q")
      case Fails_OSError
      with a se ns show ?thesis by (simp add: send_file_def Let_def)
    next
      case (Fails err)
      with a ns show ?thesis by (simp add: send_file_def Let_def)
    next
      case (Ok f)
      with a ns show ?thesis
        by (auto simp: send_file_def Let_def call_end_headers_finalised
            split: sum.splits bool.splits)
    qed
  qed
qed

lemma list_directory_source:
  "list_directory e h q = Inr (h', Some bytes) \<Longrightarrow> listing e q (path h) = Ok bytes"
proof -
  assume a: "list_directory e h q = Inr (h', Some bytes)"
  obtain h1 where se: "send_error e h 404 (Some ''No permission to list directory'') None = Inr h1"
    using send_error_Inr by blast
  show ?thesis
  proof (cases "listing e q (path h)")
    case Fails_OSError
    with a se show ?thesis by (simp add: list_directory_def)
  next
    case (Fails err)
    with a show ?thesis by (simp add: list_directory_def)
  next
    case (Ok encoded)
    with a show ?thesis
      by (simp add: list_directory_def Let_def call_end_headers_finalised)
  qed
qed

lemma send_head_source:
  assumes "send_head e h = Inr (h', Some bytes)"
  shows "(\<exists>q f. (q = translate_path e (path h) \<or>
                  q = path_join (translate_path e (path h)) ''index.html'' \<or>
                  q = path_join (translate_path e (path h)) ''index.htm'') \<and>
                 open_rb e q = Ok f \<and> bytes = contents f) \<or>
         listing e (translate_path e (path h)) (path h) = Ok bytes"
  using assms
  by (auto simp: send_head_def Let_def call_end_headers_finalised split: if_splits sum.splits
      dest: send_file_source list_directory_source)


section \<open>What is sent, and from where\<close>

lemma str_nat_404: "str_nat 404 = ''404''"
  by (simp add: str_nat.simps)





text \<open>
  C2, as stated, fails in its second half: a path with traversal sequences is not
  rejected; the \<^verbatim>\<open>..\<close> components are dropped and what remains is served from the document
  root. \<^verbatim>\<open>GET /../../index.html HTTP/1.0\<close> is answered \<^verbatim>\<open>200 OK\<close> with the root's
  \<^verbatim>\<open>index.html\<close>.
\<close>

theorem traversal_path_is_answered_200_from_the_root:
  "map_sum id wfile
     (handle_one_request example_env (request_line ''GET /../../index.html HTTP/1.0'')
        new_handler) =
   Inr (''HTTP/1.0 200 OK'' @ CRLF @
        ''Server: SimpleHTTP/0.6 Python/3.11.10'' @ CRLF @
        ''Date: Wed, 04 Nov 2026 12:00:00 GMT'' @ CRLF @
        ''Content-type: text/html'' @ CRLF @
        ''Content-Length: 5'' @ CRLF @
        ''Last-Modified: Thu, 01 Jan 2026 00:00:00 GMT'' @ CRLF @
        ''Access-Control-Allow-Origin: *'' @ CRLF @
        ''Access-Control-Allow-Methods: GET'' @ CRLF @
        ''Cache-Control: no-store, no-cache, must-revalidate'' @ CRLF @
        CRLF @ ''hello'')"
  by (simp add: eval_simps)

text \<open>
  C2, amended. Whatever the request path is, the file system path the handler works on
  is the document root joined with plain names: none is empty, \<^verbatim>\<open>.\<close> or \<^verbatim>\<open>..\<close>, none
  contains a slash. And the bytes \<^verbatim>\<open>send_head\<close> hands over for the body are those of the
  file opened at that path, or at \<^verbatim>\<open>index.html\<close> or \<^verbatim>\<open>index.htm\<close> directly under it, or the
  listing of the directory at that path.
\<close>

theorem served_files_lie_under_the_document_root:
  "(\<exists>names. translate_path e p =
       foldl path_join (directory e) names @
         (if endswith (rstrip (before_first CHR ''#'' (before_first CHR ''?'' p))) ''/''
          then ''/'' else []) \<and>
     list_all (\<lambda>n. n \<noteq> [] \<and> n \<noteq> ''.'' \<and> n \<noteq> ''..'' \<and> CHR ''/'' \<notin> set n) names) \<and>
   (send_head e h = Inr (h', Some bytes) \<longrightarrow>
      (\<exists>q f. (q = translate_path e (path h) \<or>
               q = path_join (translate_path e (path h)) ''index.html'' \<or>
               q = path_join (translate_path e (path h)) ''index.htm'') \<and>
              open_rb e q = Ok f \<and> bytes = contents f) \<or>
      listing e (translate_path e (path h)) (path h) = Ok bytes)"
  using translate_path_names [of e p] send_head_source [of e h h' bytes] by blast

theorem served_files_lie_under_the_document_root_witness:
  "translate_path example_env ''/../../etc/passwd'' = ''/srv/www/etc/passwd'' \<and>
   send_head example_env
     (new_handler\<lparr>request_version := ''HTTP/1.0'', command := Some ''GET'',
                   path := ''/../../index.html''\<rparr>) =
     Inr (finalised
            (send_header (send_header (send_header
               (send_response example_env
                  (new_handler\<lparr>request_version := ''HTTP/1.0'', command := Some ''GET'',
                                path := ''/../../index.html''\<rparr>) 200 None)
               ''Content-type'' ''text/html'') ''Content-Length'' ''5'')
               ''Last-Modified'' ''Thu, 01 Jan 2026 00:00:00 GMT''),
          Some ''hello'') \<and>
   translate_path example_env ''/../../index.html'' = ''/srv/www/index.html'' \<and>
   open_rb example_env ''/srv/www/index.html'' = Ok example_file \<and>
   contents example_file = ''hello''"
proof -
  have t1: "translate_path example_env ''/../../etc/passwd'' = ''/srv/www/etc/passwd''"
    by (simp add: eval_simps)
  have t2: "translate_path example_env ''/../../index.html'' = ''/srv/www/index.html''"
    by (simp add: eval_simps)
  have o: "open_rb example_env ''/srv/www/index.html'' = Ok example_file"
    by (simp add: example_env_def)
  have g: "guess_type example_env ''/srv/www/index.html'' = ''text/html''"
    "\<not> isdir example_env ''/srv/www/index.html''"
    by (simp_all add: example_env_def)
  have s: "send_head example_env
     (new_handler\<lparr>request_version := ''HTTP/1.0'', command := Some ''GET'',
                   path := ''/../../index.html''\<rparr>) =
     Inr (finalised
            (send_header (send_header (send_header
               (send_response example_env
                  (new_handler\<lparr>request_version := ''HTTP/1.0'', command := Some ''GET'',
                                path := ''/../../index.html''\<rparr>) 200 None)
               ''Content-type'' ''text/html'') ''Content-Length'' ''5'')
               ''Last-Modified'' ''Thu, 01 Jan 2026 00:00:00 GMT''),
          Some ''hello'')"
    by (simp add: send_head_def send_file_def unmodified_def Let_def t2 o g
        call_end_headers_finalised endswith_def header_get_def new_handler_def
        example_file_def str_nat.simps)
  show ?thesis
    using served_files_lie_under_the_document_root
      [of example_env "''/../../etc/passwd''"
          "new_handler\<lparr>request_version := ''HTTP/1.0'', command := Some ''GET'',
                        path := ''/../../index.html''\<rparr>"] t1 t2 o s
    by (simp add: example_file_def)
qed

text \<open>
  C6, as stated, fails: \<^verbatim>\<open>GET /does-not-exist.xyz\<close> without a version is handled under
  \<^verbatim>\<open>HTTP/0.9\<close>, so neither a status line nor a header is sent; the client receives the
  error page alone.
\<close>

theorem missing_path_without_version_gets_no_status_line:
  "map_sum id wfile
     (handle_one_request example_env (request_line ''GET /does-not-exist.xyz'') new_handler) =
   Inr ''<p>Error code: 404</p><p>Message: File not found.</p>''"
  by (simp add: eval_simps)

text \<open>
  C6, amended. For a \<^verbatim>\<open>GET\<close> handled under a request version other than \<^verbatim>\<open>HTTP/0.9\<close>
  whose path translates to no directory and to a path that \<^verbatim>\<open>open\<close> refuses with \<^verbatim>\<open>OSError\<close>
  (no such file, permission denied), what is written is: what the header buffer held, the
  status line \<^verbatim>\<open>HTTP/1.0 404 File not found\<close>, the headers of the inherited error reply, the
  three fixed headers, the blank line and the error page.
\<close>

theorem missing_file_gets_404_with_fixed_headers:
  assumes "request_version h \<noteq> ''HTTP/0.9''" and "command h = Some ''GET''"
    and "\<not> isdir e (translate_path e (path h))"
    and "open_rb e (translate_path e (path h)) = Fails_OSError"
  shows "\<exists>h'. do_GET e h = Inr h' \<and>
     wfile h' = wfile h @ concat (buffer_of h) @
       ''HTTP/1.0 404 File not found'' @ CRLF @
       ''Server: '' @ version_string e @ CRLF @
       ''Date: '' @ date_time_string e @ CRLF @
       ''Connection: close'' @ CRLF @
       ''Content-Type: text/html;charset=utf-8'' @ CRLF @
       ''Content-Length: '' @
          str_nat (length (error_body e 404 ''File not found''
            (case responses e 404 of None \<Rightarrow> ''???'' | Some sl \<Rightarrow> snd sl))) @ CRLF @
       ''Access-Control-Allow-Origin: *'' @ CRLF @
       ''Access-Control-Allow-Methods: GET'' @ CRLF @
       ''Cache-Control: no-store, no-cache, must-revalidate'' @ CRLF @
       CRLF @
       error_body e 404 ''File not found''
         (case responses e 404 of None \<Rightarrow> ''???'' | Some sl \<Rightarrow> snd sl)"
proof -
  have sf: "send_file e h (translate_path e (path h)) =
      (case send_error e h 404 (Some ''File not found'') None of
         Inl x \<Rightarrow> Inl x | Inr h1 \<Rightarrow> Inr (h1, None))"
    using assms(4) by (simp add: send_file_def Let_def)
  have "do_GET e h = send_error e h 404 (Some ''File not found'') None"
    using assms(3) sf by (simp add: do_GET_def send_head_def Let_def split: sum.splits)
  then show ?thesis
    using assms(1,2)
    by (auto simp: send_error_def send_response_def send_response_only_def send_header_def
        call_end_headers_finalised finalised_def cors_block_def buffer_of_def Let_def
        protocol_version_def error_content_type_def str_nat_404
        lower_Connection lower_close lower_others split: option.splits)
qed

theorem missing_file_gets_404_with_fixed_headers_witness:
  "request_version (new_handler\<lparr>request_version := ''HTTP/1.1'', command := Some ''GET'',
       path := ''/does-not-exist.xyz''\<rparr>) \<noteq> ''HTTP/0.9'' \<and>
   \<not> isdir example_env (translate_path example_env ''/does-not-exist.xyz'') \<and>
   open_rb example_env (translate_path example_env ''/does-not-exist.xyz'') = Fails_OSError \<and>
   (\<exists>h'. do_GET example_env (new_handler\<lparr>request_version := ''HTTP/1.1'',
            command := Some ''GET'', path := ''/does-not-exist.xyz''\<rparr>) = Inr h' \<and>
      wfile h' =
        ''HTTP/1.0 404 File not found'' @ CRLF @
        ''Server: SimpleHTTP/0.6 Python/3.11.10'' @ CRLF @
        ''Date: Wed, 04 Nov 2026 12:00:00 GMT'' @ CRLF @
        ''Connection: close'' @ CRLF @
        ''Content-Type: text/html;charset=utf-8'' @ CRLF @
        ''Content-Length: 53'' @ CRLF @
        ''Access-Control-Allow-Origin: *'' @ CRLF @
        ''Access-Control-Allow-Methods: GET'' @ CRLF @
        ''Cache-Control: no-store, no-cache, must-revalidate'' @ CRLF @
        CRLF @
        ''<p>Error code: 404</p><p>Message: File not found.</p>'')"
proof -
  have t: "translate_path example_env ''/does-not-exist.xyz'' = ''/srv/www/does-not-exist.xyz''"
    by (simp add: eval_simps)
  have d: "\<not> isdir example_env ''/srv/www/does-not-exist.xyz''"
    "open_rb example_env ''/srv/www/does-not-exist.xyz'' = Fails_OSError"
    by (simp_all add: example_env_def)
  show ?thesis
    using missing_file_gets_404_with_fixed_headers
      [of "new_handler\<lparr>request_version := ''HTTP/1.1'', command := Some ''GET'',
             path := ''/does-not-exist.xyz''\<rparr>" example_env] t d
    by (simp add: new_handler_def buffer_of_def example_env_def str_nat.simps)
qed

text \<open>
  C10, as stated, fails: \<^verbatim>\<open>POST / HTTP/0.9\<close> names a version the parser accepts, the
  method is not supported and the handler answers with \<^verbatim>\<open>send_error(501)\<close>, but under the
  request version \<^verbatim>\<open>HTTP/0.9\<close> no copy of any header is emitted: the response is the error
  page alone.
\<close>

theorem post_under_http09_is_answered_without_fixed_headers:
  "map_sum id wfile
     (handle_one_request example_env (request_line ''POST / HTTP/0.9'') new_handler) =
   Inr (''<p>Error code: 501</p><p>Message: Unsupported method ('' @ [CHR 0x27] @ ''POST'' @
        [CHR 0x27] @ '').</p>'')"
  by (simp add: eval_simps)

text \<open>
  C10, amended. Under every request version other than \<^verbatim>\<open>HTTP/0.9\<close>, finalising the
  headers writes the buffered lines followed by exactly the three fixed lines, each once,
  always in the same order and with the same values, and the blank line; the method, the
  path and the request headers have no influence on it.
\<close>

theorem one_copy_of_each_fixed_header_in_order:
  assumes "request_version h \<noteq> ''HTTP/0.9''"
  shows "\<exists>h' injected. end_headers h = Inr h' \<and>
      injected = [''Access-Control-Allow-Origin: *'' @ CRLF,
                  ''Access-Control-Allow-Methods: GET'' @ CRLF,
                  ''Cache-Control: no-store, no-cache, must-revalidate'' @ CRLF] \<and>
      distinct injected \<and>
      wfile h' = wfile h @ concat (buffer_of h @ injected @ [CRLF]) \<and>
      end_headers (h\<lparr>command := c, path := p, headers := hs\<rparr>) =
        Inr (h'\<lparr>command := c, path := p, headers := hs\<rparr>)"
  using assms by (simp add: end_headers_versioned buffer_of_def)

theorem one_copy_of_each_fixed_header_in_order_witness:
  "request_version (new_handler\<lparr>request_version := ''HTTP/1.1'', command := Some ''POST''\<rparr>) \<noteq>
     ''HTTP/0.9'' \<and>
   (\<exists>h'. end_headers (new_handler\<lparr>request_version := ''HTTP/1.1'', command := Some ''POST''\<rparr>) =
           Inr h' \<and>
         wfile h' = ''Access-Control-Allow-Origin: *'' @ CRLF @
                    ''Access-Control-Allow-Methods: GET'' @ CRLF @
                    ''Cache-Control: no-store, no-cache, must-revalidate'' @ CRLF @ CRLF)"
proof -
  let ?h = "new_handler\<lparr>request_version := ''HTTP/1.1'', command := Some ''POST''\<rparr>"
  have v: "request_version ?h \<noteq> ''HTTP/0.9''"
    by simp
  obtain h' injected where a: "end_headers ?h = Inr h'"
    "injected = [''Access-Control-Allow-Origin: *'' @ CRLF,
                  ''Access-Control-Allow-Methods: GET'' @ CRLF,
                  ''Cache-Control: no-store, no-cache, must-revalidate'' @ CRLF]"
    "wfile h' = wfile ?h @ concat (buffer_of ?h @ injected @ [CRLF])"
    using one_copy_of_each_fixed_header_in_order [OF v] by blast
  have "wfile h' = ''Access-Control-Allow-Origin: *'' @ CRLF @
                    ''Access-Control-Allow-Methods: GET'' @ CRLF @
                    ''Cache-Control: no-store, no-cache, must-revalidate'' @ CRLF @ CRLF"
    using a(2,3) by (simp add: new_handler_def buffer_of_def)
  with a(1) v show ?thesis by blast
qed

end
